theory Spec2Isabelle
  imports Complex_Main "HOL-Library.Sublist"
begin

section \<open>Python values the service handles\<close>

text \<open>
  The service (\<^verbatim>\<open>agentgo_mcp_service.py\<close>) keeps two module-level dictionaries,
  \<^verbatim>\<open>challenge_storage\<close> and \<^verbatim>\<open>auth_tokens\<close>, and exposes tools that read and
  update them around calls to upstream HTTP services. Each tool is modelled as a function
  from the stores (and from what the environment supplies: the clock, the random draws,
  the upstream answer) to the returned dictionary and the new stores. The tools that only
  pass an upstream answer through (\<^verbatim>\<open>claim_sigma_attestation\<close>, the two wrappers of
  \<^verbatim>\<open>query_ranked_bubbles\<close>) and the two helpers that no tool calls keep no state and
  are left out.
\<close>

type_synonym address = string

text \<open>
  \<^verbatim>\<open>number: Optional[Union[float, int]]\<close>. A float is modelled by its exact value;
  Python compares an int with a float by value, without rounding the int. An infinity or
  a NaN differs from every int, as does any other value that is not the answer.
\<close>

datatype pynumber = PyInt int | PyFloat real

fun number_eq :: "pynumber \<Rightarrow> int \<Rightarrow> bool" where
  "number_eq (PyInt i) e = (i = e)"
| "number_eq (PyFloat r) e = (r = of_int e)"

text \<open>\<^verbatim>\<open>address or DEFAULT_ADDRESS\<close>: \<^verbatim>\<open>None\<close> and the empty string are falsy.\<close>

definition py_or :: "string option \<Rightarrow> string \<Rightarrow> string" where
  "py_or a d = (case a of None \<Rightarrow> d | Some s \<Rightarrow> if s = [] then d else s)"

text \<open>\<^verbatim>\<open>str(n)\<close> for an int, as the f-strings of the service render it.\<close>

definition digit_char :: "nat \<Rightarrow> char" where
  "digit_char d = char_of (48 + d)"

function str_nat :: "nat \<Rightarrow> string" where
  "str_nat n = (if n < 10 then [digit_char n] else str_nat (n div 10) @ [digit_char (n mod 10)])"
  by pat_completeness auto
termination
  by (relation "measure id") auto

declare str_nat.simps [simp del]

definition str_int :: "int \<Rightarrow> string" where
  "str_int i = (if i < 0 then CHR ''-'' # str_nat (nat (- i)) else str_nat (nat i))"

text \<open>\<^verbatim>\<open>f"{address}"\<close> for an \<^verbatim>\<open>Optional[str]\<close>.\<close>

definition str_opt :: "string option \<Rightarrow> string" where
  "str_opt a = (case a of None \<Rightarrow> ''None'' | Some s \<Rightarrow> s)"

text \<open>
  \<^verbatim>\<open>random.randint(a, b)\<close> returns an integer \<open>N\<close> with \<open>a \<le> N \<le> b\<close>; the
  argument \<open>r\<close> is the raw draw of the generator.
\<close>

definition randint :: "int \<Rightarrow> int \<Rightarrow> nat \<Rightarrow> int" where
  "randint a b r = a + int r mod (b - a + 1)"

section \<open>The stores\<close>

text \<open>
  \<^verbatim>\<open>challenge_storage[address]\<close> is a dictionary. \<^verbatim>\<open>get_trustgo_login_message\<close>
  writes it as a literal with the four keys \<^verbatim>\<open>expected_answer\<close>, \<^verbatim>\<open>timestamp\<close>,
  \<^verbatim>\<open>message\<close>, \<^verbatim>\<open>challenge_created\<close>; \<^verbatim>\<open>login_twitter\<close> writes the key
  \<^verbatim>\<open>twitter\<close>, itself a dictionary with \<^verbatim>\<open>message\<close>, \<^verbatim>\<open>number\<close> and, after a
  verification, \<^verbatim>\<open>user_screen_name\<close>. The four login keys are always present or absent
  together, so the entry is a record of two optional groups.
\<close>

record login_challenge =
  expected_answer :: int
  timestamp :: int
  message :: string
  challenge_created :: string

record twitter_challenge =
  tw_message :: string
  tw_number :: int
  tw_user_screen_name :: "string option option"

record challenge_record =
  login :: "login_challenge option"
  twitter :: "twitter_challenge option"

text \<open>\<^verbatim>\<open>auth_tokens[address]\<close>: starts as \<^verbatim>\<open>{}\<close>, then gets both keys.\<close>

record session_record =
  trustgo_token :: "string option"
  trustgo_login_time :: "string option"

text \<open>
  \<^verbatim>\<open>login_twitter\<close> and \<^verbatim>\<open>verify_twitter_signature\<close> use their
  \<^verbatim>\<open>Optional[str]\<close> argument as the key as it is, so \<^verbatim>\<open>None\<close> is a possible key of
  \<^verbatim>\<open>challenge_storage\<close>.
\<close>

record state =
  challenge_storage :: "address option \<Rightarrow> challenge_record option"
  auth_tokens :: "address \<Rightarrow> session_record option"

section \<open>Upstream answers\<close>

text \<open>
  An awaited HTTP call either raises (transport error, a body that is not JSON) or yields
  a response.
\<close>

datatype py_exception =
    KeyError "string option"
  | AttributeError_None string
  | Upstream_Exception string

datatype 'r http_outcome = Raised py_exception | Response 'r

text \<open>
  The login exchange \<^verbatim>\<open>/accounts/check_signed_message\<close>, by what \<^verbatim>\<open>trustgo_login\<close>
  reads of it: \<^verbatim>\<open>response.status\<close>, the truth value of \<^verbatim>\<open>response_data.get('success')\<close>,
  \<^verbatim>\<open>response_data.get('data', {}).get('token', '')\<close> and
  \<^verbatim>\<open>response_data.get('message', 'Unknown error')\<close>.
  \<open>Data_Object None\<close> is an object without a token, or with a null one.
\<close>

datatype data_field = Data_Absent | Data_Null | Data_Object "string option"

record login_response =
  resp_status :: nat
  resp_success :: bool
  resp_data :: data_field
  resp_message :: "string option"

record login_request =
  req_address :: address
  req_message :: string
  req_mode :: string
  req_signature :: string
  req_invite_code :: "string option"
  req_invite_from :: "string option"

text \<open>The tweet lookup, by what \<^verbatim>\<open>verify_twitter_signature\<close> reads of it.\<close>

record tweet_author =
  screen_name :: "string option"

record tweet =
  tweet_text :: "string option"
  tweet_author :: "tweet_author option"

text \<open>The ranked-bubbles query; \<open>'j\<close> is the raw JSON body.\<close>

record 'j bubbles_response =
  bub_status :: nat
  bub_body :: 'j
  bub_message :: "string option"

record bubbles_request =
  bub_token :: string
  bub_type :: string

section \<open>Returned dictionaries\<close>

text \<open>
  Every tool returns a dictionary with \<^verbatim>\<open>"status": "error"\<close> or
  \<^verbatim>\<open>"status": "success"\<close>. One constructor stands for each error dictionary of the
  source; its arguments are the values interpolated into the dictionary.
\<close>

datatype tool_error =
    Address_Required
      \<comment> \<open>"Please provide address or set AGENT_ADDRESS environment variable"\<close>
  | No_Challenge
      \<comment> \<open>"No challenge found for this address. Please call get_trustgo_login_message first"\<close>
  | Challenge_Mismatch
      \<comment> \<open>"Message does not match the challenge. ..."\<close>
  | Missing_Answer
      \<comment> \<open>"Please provide the calculated number from the challenge"\<close>
  | Incorrect_Answer int pynumber
      \<comment> \<open>"Incorrect calculation. Expected: ..., Got: ..."\<close>
  | Signature_Rejected address string
      \<comment> \<open>"Login failed: No token The signature is incorrect", with address and signature\<close>
  | Login_Failed_Upstream "string option"
      \<comment> \<open>"TrustGo login failed: " and the upstream message, 'Unknown error' when absent\<close>
  | Login_Failed_Exception py_exception
      \<comment> \<open>"TrustGo login failed: " and \<^verbatim>\<open>str(e)\<close>\<close>
  | Not_Authenticated
      \<comment> \<open>"Please login to TrustGo first using trustgo_login"\<close>
  | Invalid_Bubble_Type
      \<comment> \<open>"Invalid bubble type. Must be one of: price, sigma_score, mindshare"\<close>
  | Query_Upstream_Failed "string option"
      \<comment> \<open>"Failed to query ranked bubbles: " and the upstream message\<close>
  | Query_Failed py_exception
      \<comment> \<open>"Query failed: " and \<^verbatim>\<open>str(e)\<close>\<close>
  | Verification_Mismatch tweet
      \<comment> \<open>"Twitter signature verification failed", with the fetched post\<close>
  | Sign_Failed py_exception
      \<comment> \<open>"Sign failed: " and \<^verbatim>\<open>str(e)\<close>\<close>

datatype 'a result = Error tool_error | Success 'a

record calculation_challenge =
  description :: string
  num1 :: int
  num2 :: int
  num3 :: int
  formula :: string

record login_message =
  lm_message :: string
  lm_calculation_challenge :: calculation_challenge
  lm_instructions :: string

record login_success =
  ls_message :: string
  ls_address :: address
  ls_token :: string
  ls_login_message :: string

record 'j bubbles =
  bubble_type :: string
  bubble_data :: 'j
  bubble_timestamp :: string

record twitter_message =
  tm_message :: string
  tm_number :: int

record twitter_verified =
  tv_data :: tweet
  tv_user_screen_name :: "string option"

section \<open>The tools\<close>

subsection \<open>\<^verbatim>\<open>get_trustgo_login_message\<close>\<close>

text \<open>
  \<open>default_address\<close> is the module constant \<^verbatim>\<open>DEFAULT_ADDRESS\<close>; \<open>now_ts\<close> is
  \<^verbatim>\<open>int(datetime.now().timestamp())\<close>, \<open>now_iso\<close> is \<^verbatim>\<open>datetime.now().isoformat()\<close>,
  and \<open>r1\<close>, \<open>r2\<close>, \<open>r3\<close> are the three draws of the random generator. The assignment
  \<^verbatim>\<open>challenge_storage[user_address] = {...}\<close> replaces the whole entry of the address.
  The line that logs the answer on the server writes to no store and is left out.
\<close>

definition get_trustgo_login_message ::
  "string \<Rightarrow> int \<Rightarrow> string \<Rightarrow> nat \<Rightarrow> nat \<Rightarrow> nat \<Rightarrow> state \<Rightarrow> address option
     \<Rightarrow> login_message result \<times> state" where
  "get_trustgo_login_message default_address now_ts now_iso r1 r2 r3 st address =
     (let user_address = py_or address default_address in
      if user_address = [] then (Error Address_Required, st)
      else
        let msg = ''sign the message to login trustgo'' @ str_int now_ts;
            n1 = randint 1000000 9999999 r1;
            n2 = randint 1000000 9999999 r2;
            n3 = randint 100 999 r3;
            answer = (n1 * n2) + (n3 ^ 2) - (n1 mod n3)
        in (Success
              \<lparr>lm_message = msg,
               lm_calculation_challenge =
                 \<lparr>description = ''Calculate: (num1 * num2) + (num3^2) - (num1 % num3)'',
                  num1 = n1, num2 = n2, num3 = n3,
                  formula = str_int n1 @ '' * '' @ str_int n2 @ '' + '' @ str_int n3
                    @ ''^2 - ('' @ str_int n1 @ '' % '' @ str_int n3 @ '')''\<rparr>,
               lm_instructions = ''Please calculate the result and provide it in the 'number' parameter when calling trustgo_login''\<rparr>,
            st\<lparr>challenge_storage := (challenge_storage st)(Some user_address \<mapsto>
              \<lparr>login = Some \<lparr>expected_answer = answer, timestamp = now_ts, message = msg,
                              challenge_created = now_iso\<rparr>,
               twitter = None\<rparr>)\<rparr>))"

subsection \<open>\<^verbatim>\<open>trustgo_login\<close>\<close>

text \<open>
  The part of \<^verbatim>\<open>trustgo_login\<close> before the HTTP call: the four checks in the source's
  order, then \<^verbatim>\<open>del challenge_storage[address]\<close>. An entry without the login keys (one
  that \<^verbatim>\<open>login_twitter\<close> created) makes \<^verbatim>\<open>challenge["message"]\<close> raise
  \<^verbatim>\<open>KeyError\<close>, which the handler at the end of the function turns into its error
  dictionary. \<open>Inr\<close> carries the stores as the HTTP call finds them.
\<close>

definition trustgo_login_checks ::
  "state \<Rightarrow> address \<Rightarrow> string \<Rightarrow> pynumber option \<Rightarrow> tool_error + state" where
  "trustgo_login_checks st address msg number =
     (case challenge_storage st (Some address) of
        None \<Rightarrow> Inl No_Challenge
      | Some challenge \<Rightarrow>
          (case login challenge of
             None \<Rightarrow> Inl (Login_Failed_Exception (KeyError (Some ''message'')))
           | Some c \<Rightarrow>
               if msg \<noteq> message c then Inl Challenge_Mismatch
               else
                 (case number of
                    None \<Rightarrow> Inl Missing_Answer
                  | Some n \<Rightarrow>
                      if \<not> number_eq n (expected_answer c)
                      then Inl (Incorrect_Answer (expected_answer c) n)
                      else Inr (st\<lparr>challenge_storage :=
                                     (challenge_storage st)(Some address := None)\<rparr>))))"

text \<open>\<^verbatim>\<open>response_data.get('data', {}).get('token', '')\<close>; a null \<^verbatim>\<open>data\<close> raises.\<close>

fun response_token :: "data_field \<Rightarrow> py_exception + string option" where
  "response_token Data_Absent = Inr (Some [])"
| "response_token Data_Null = Inl (AttributeError_None ''get'')"
| "response_token (Data_Object None) = Inr None"
| "response_token (Data_Object (Some t)) = Inr (Some t)"

text \<open>
  The part of \<^verbatim>\<open>trustgo_login\<close> after the HTTP call; \<open>now_iso\<close> is
  \<^verbatim>\<open>datetime.now().isoformat()\<close>. \<^verbatim>\<open>not token\<close> holds for \<^verbatim>\<open>None\<close> and for the
  empty string.
\<close>

definition trustgo_login_response ::
  "state \<Rightarrow> string \<Rightarrow> address \<Rightarrow> string \<Rightarrow> string \<Rightarrow> login_response http_outcome
     \<Rightarrow> login_success result \<times> state" where
  "trustgo_login_response st now_iso address signature msg outcome =
     (case outcome of
        Raised e \<Rightarrow> (Error (Login_Failed_Exception e), st)
      | Response r \<Rightarrow>
          if resp_status r = 200 \<and> resp_success r then
            (case response_token (resp_data r) of
               Inl e \<Rightarrow> (Error (Login_Failed_Exception e), st)
             | Inr token \<Rightarrow>
                 (case token of
                    None \<Rightarrow> (Error (Signature_Rejected address signature), st)
                  | Some t \<Rightarrow>
                      if t = [] then (Error (Signature_Rejected address signature), st)
                      else
                        let entry = (case auth_tokens st address of
                                       None \<Rightarrow> \<lparr>trustgo_token = None, trustgo_login_time = None\<rparr>
                                     | Some s \<Rightarrow> s)
                        in (Success \<lparr>ls_message = ''TrustGo login successful'',
                                     ls_address = address, ls_token = t,
                                     ls_login_message = msg\<rparr>,
                            st\<lparr>auth_tokens := (auth_tokens st)(address \<mapsto>
                                 entry\<lparr>trustgo_token := Some t,
                                       trustgo_login_time := Some now_iso\<rparr>)\<rparr>)))
          else (Error (Login_Failed_Upstream (resp_message r)), st))"

text \<open>
  The whole tool. \<open>upstream\<close> is the login exchange: it answers the request the tool
  posts, and is consulted only when the checks have passed.
\<close>

definition trustgo_login ::
  "(login_request \<Rightarrow> login_response http_outcome) \<Rightarrow> string \<Rightarrow> state \<Rightarrow> address \<Rightarrow> string
     \<Rightarrow> string \<Rightarrow> string option \<Rightarrow> string option \<Rightarrow> pynumber option
     \<Rightarrow> login_success result \<times> state" where
  "trustgo_login upstream now_iso st address signature msg invite_code invite_from number =
     (case trustgo_login_checks st address msg number of
        Inl e \<Rightarrow> (Error e, st)
      | Inr st1 \<Rightarrow>
          trustgo_login_response st1 now_iso address signature msg
            (upstream \<lparr>req_address = address, req_message = msg, req_mode = ''evm'',
                       req_signature = signature, req_invite_code = invite_code,
                       req_invite_from = invite_from\<rparr>))"

subsection \<open>\<^verbatim>\<open>query_ranked_bubbles\<close>\<close>

text \<open>The dictionary \<^verbatim>\<open>type_mapping\<close>.\<close>

definition type_mapping :: "(string \<times> string) list" where
  "type_mapping =
     [(''price'', ''price''), (''sigma_score'', ''sigma_score''), (''mindshare'', ''mindshare'')]"

text \<open>
  The part of \<^verbatim>\<open>query_ranked_bubbles\<close> before the HTTP call. \<open>Inr\<close> carries the request
  the tool sends: the token of the \<^verbatim>\<open>Authorization\<close> header and the \<^verbatim>\<open>type\<close>
  parameter. The tool writes to no store.
\<close>

definition query_ranked_bubbles_gate ::
  "string \<Rightarrow> state \<Rightarrow> string \<Rightarrow> address option \<Rightarrow> tool_error + bubbles_request" where
  "query_ranked_bubbles_gate default_address st btype address =
     (let query_address = py_or address default_address;
          token = (if query_address \<noteq> [] \<and> auth_tokens st query_address \<noteq> None
                   then trustgo_token (the (auth_tokens st query_address))
                   else None)
      in case token of
           None \<Rightarrow> Inl Not_Authenticated
         | Some t \<Rightarrow>
             if t = [] then Inl Not_Authenticated
             else
               (case map_of type_mapping btype of
                  None \<Rightarrow> Inl Invalid_Bubble_Type
                | Some ty \<Rightarrow> Inr \<lparr>bub_token = t, bub_type = ty\<rparr>))"

definition query_ranked_bubbles ::
  "string \<Rightarrow> (bubbles_request \<Rightarrow> 'j bubbles_response http_outcome) \<Rightarrow> string \<Rightarrow> state
     \<Rightarrow> string \<Rightarrow> address option \<Rightarrow> 'j bubbles result" where
  "query_ranked_bubbles default_address upstream now_iso st btype address =
     (case query_ranked_bubbles_gate default_address st btype address of
        Inl e \<Rightarrow> Error e
      | Inr req \<Rightarrow>
          (case upstream req of
             Raised e \<Rightarrow> Error (Query_Failed e)
           | Response r \<Rightarrow>
               if bub_status r = 200
               then Success \<lparr>bubble_type = btype, bubble_data = bub_body r,
                             bubble_timestamp = now_iso\<rparr>
               else Error (Query_Upstream_Failed (bub_message r))))"

subsection \<open>\<^verbatim>\<open>login_twitter\<close> and \<^verbatim>\<open>verify_twitter_signature\<close>\<close>

text \<open>
  \<^verbatim>\<open>login_twitter\<close> creates the entry of the address when there is none, and otherwise
  assigns only its \<^verbatim>\<open>twitter\<close> key. \<open>r\<close> is the draw of the random generator.
\<close>

definition login_twitter ::
  "nat \<Rightarrow> state \<Rightarrow> address option \<Rightarrow> twitter_message result \<times> state" where
  "login_twitter r st address =
     (let n = randint 1000000 9999999 r;
          msg = ''Using AgentGo to sign with twitter '' @ str_opt address @ '' code is ''
                  @ str_int n;
          slot = \<lparr>tw_message = msg, tw_number = n, tw_user_screen_name = None\<rparr>;
          entry = (case challenge_storage st address of
                     None \<Rightarrow> \<lparr>login = None, twitter = Some slot\<rparr>
                   | Some e \<Rightarrow> e\<lparr>twitter := Some slot\<rparr>)
      in (Success \<lparr>tm_message = msg, tm_number = n\<rparr>,
          st\<lparr>challenge_storage := (challenge_storage st)(address \<mapsto> entry)\<rparr>))"

text \<open>
  \<^verbatim>\<open>verify_twitter_signature\<close>: the HTTP call comes first, then the comparison
  \<^verbatim>\<open>response_data.get("text") != challenge_storage[address]["twitter"]["message"]\<close>,
  whose lookups raise \<^verbatim>\<open>KeyError\<close> when the entry or its \<^verbatim>\<open>twitter\<close> key is
  missing; \<^verbatim>\<open>response_data.get("author").get("screen_name")\<close> raises when the post
  has no author. Every exception ends in the handler's error dictionary.
\<close>

definition verify_twitter_signature ::
  "tweet http_outcome \<Rightarrow> state \<Rightarrow> address option \<Rightarrow> twitter_verified result \<times> state" where
  "verify_twitter_signature outcome st address =
     (case outcome of
        Raised e \<Rightarrow> (Error (Sign_Failed e), st)
      | Response response_data \<Rightarrow>
          (case challenge_storage st address of
             None \<Rightarrow> (Error (Sign_Failed (KeyError address)), st)
           | Some entry \<Rightarrow>
               (case twitter entry of
                  None \<Rightarrow> (Error (Sign_Failed (KeyError (Some ''twitter''))), st)
                | Some slot \<Rightarrow>
                    if tweet_text response_data \<noteq> Some (tw_message slot)
                    then (Error (Verification_Mismatch response_data), st)
                    else
                      (case tweet_author response_data of
                         None \<Rightarrow> (Error (Sign_Failed (AttributeError_None ''get'')), st)
                       | Some a \<Rightarrow>
                           (Success \<lparr>tv_data = response_data,
                                     tv_user_screen_name = screen_name a\<rparr>,
                            st\<lparr>challenge_storage := (challenge_storage st)(address \<mapsto>
                                 entry\<lparr>twitter := Some (slot\<lparr>tw_user_screen_name :=
                                           Some (screen_name a)\<rparr>)\<rparr>)\<rparr>)))))"

section \<open>Example stores\<close>

text \<open>The stores as the module creates them: both dictionaries empty.\<close>

definition initial_state :: state where
  "initial_state = \<lparr>challenge_storage = Map.empty, auth_tokens = Map.empty\<rparr>"

text \<open>
  A login challenge for the address \<^verbatim>\<open>0xABC\<close> as \<^verbatim>\<open>get_trustgo_login_message\<close>
  stores it for the operands 1000000, 1000000 and 100, and the stores that hold it.
\<close>

definition example_challenge :: login_challenge where
  "example_challenge =
     \<lparr>expected_answer = 1000000010000, timestamp = 1700000000,
      message = ''sign the message to login trustgo1700000000'',
      challenge_created = ''2023-11-14T22:13:20''\<rparr>"

definition example_state :: state where
  "example_state =
     \<lparr>challenge_storage = [Some ''0xABC'' \<mapsto> \<lparr>login = Some example_challenge, twitter = None\<rparr>],
      auth_tokens = Map.empty\<rparr>"

text \<open>An upstream service that cannot be reached.\<close>

definition unreachable :: "'q \<Rightarrow> 'r http_outcome" where
  "unreachable req = Raised (Upstream_Exception ''Cannot connect to host'')"

text \<open>
  An upstream login exchange that accepts every signature and issues the token \<open>tok\<close>;
  with the empty token it is the exchange that finds the signature wrong.
\<close>

definition accepting :: "string \<Rightarrow> login_request \<Rightarrow> login_response http_outcome" where
  "accepting tok req =
     Response \<lparr>resp_status = 200, resp_success = True, resp_data = Data_Object (Some tok),
               resp_message = None\<rparr>"

text \<open>
  An upstream login exchange that answers status 200 and a true \<^verbatim>\<open>success\<close> with
  \<^verbatim>\<open>"data": null\<close>.
\<close>

definition answering_null_data :: "login_request \<Rightarrow> login_response http_outcome" where
  "answering_null_data req =
     Response \<lparr>resp_status = 200, resp_success = True, resp_data = Data_Null,
               resp_message = None\<rparr>"

text \<open>
  The stores of an address that logged in before (token \<^verbatim>\<open>tok-1\<close>) and has asked
  for a new login challenge.
\<close>

definition example_relogin_state :: state where
  "example_relogin_state =
     \<lparr>challenge_storage = [Some ''0xABC'' \<mapsto> \<lparr>login = Some example_challenge, twitter = None\<rparr>],
      auth_tokens = [''0xABC'' \<mapsto> \<lparr>trustgo_token = Some ''tok-1'',
                                   trustgo_login_time = Some ''2023-11-14T22:14:00''\<rparr>]\<rparr>"

text \<open>The stores after a login of \<^verbatim>\<open>0xABC\<close> that obtained the token \<^verbatim>\<open>tok-1\<close>.\<close>

definition example_session_state :: state where
  "example_session_state =
     \<lparr>challenge_storage = Map.empty,
      auth_tokens = [''0xABC'' \<mapsto> \<lparr>trustgo_token = Some ''tok-1'',
                                   trustgo_login_time = Some ''2023-11-14T22:14:00''\<rparr>]\<rparr>"

text \<open>An upstream ranked-bubbles service that answers every query with the body \<open>body\<close>.\<close>

definition answering :: "'j \<Rightarrow> bubbles_request \<Rightarrow> 'j bubbles_response http_outcome" where
  "answering body req = Response \<lparr>bub_status = 200, bub_body = body, bub_message = None\<rparr>"

text \<open>
  The stores after \<^verbatim>\<open>login_twitter\<close> issued the code 1000000 to \<^verbatim>\<open>0xABC\<close>, and two
  fetched posts: one that carries the issued message, written by \<^verbatim>\<open>agent_abc\<close>, and
  one whose text differs from it in the last character.
\<close>

definition example_twitter_state :: state where
  "example_twitter_state = snd (login_twitter 0 initial_state (Some ''0xABC''))"

definition matching_post :: tweet where
  "matching_post =
     \<lparr>tweet_text = Some (''Using AgentGo to sign with twitter 0xABC code is '' @ str_int 1000000),
      tweet_author = Some \<lparr>screen_name = Some ''agent_abc''\<rparr>\<rparr>"

definition altered_post :: tweet where
  "altered_post =
     \<lparr>tweet_text = Some (''Using AgentGo to sign with twitter 0xABC code is '' @ str_int 1000000
                          @ ''!''),
      tweet_author = Some \<lparr>screen_name = Some ''agent_abc''\<rparr>\<rparr>"

text \<open>
  What it means for a string to show a number: the decimal digits of ASCII, and a bound on
  the runs of digits in a string (every contiguous part of \<open>ys\<close> that consists of digits
  has at most \<open>k\<close> characters).
\<close>

definition is_digit :: "char \<Rightarrow> bool" where
  "is_digit c = (48 \<le> (of_char c :: nat) \<and> (of_char c :: nat) < 58)"

definition digit_runs_le :: "nat \<Rightarrow> string \<Rightarrow> bool" where
  "digit_runs_le k ys = (\<forall>xs. sublist xs ys \<and> list_all is_digit xs \<longrightarrow> length xs \<le> k)"

text \<open>The payload of a success dictionary.\<close>

fun the_success :: "'a result \<Rightarrow> 'a option" where
  "the_success (Success x) = Some x"
| "the_success (Error e) = None"

section \<open>Decimal rendering is injective\<close>

lemma of_char_digit_char: "d < 10 \<Longrightarrow> (of_char (digit_char d) :: nat) = 48 + d"
  by (simp add: digit_char_def take_bit_nat_eq_self)

lemma digit_char_inj: "d < 10 \<Longrightarrow> e < 10 \<Longrightarrow> digit_char d = digit_char e \<Longrightarrow> d = e"
  by (metis of_char_digit_char add_left_cancel)

lemma digit_char_not_minus: "d < 10 \<Longrightarrow> digit_char d \<noteq> CHR ''-''"
proof
  assume d: "d < 10" and "digit_char d = CHR ''-''"
  then have "(of_char (digit_char d) :: nat) = of_char (CHR ''-'')" by simp
  with d show False by (simp add: of_char_digit_char)
qed

lemma str_nat_nonempty: "str_nat n \<noteq> []"
  by (subst str_nat.simps) simp

lemma last_str_nat: "last (str_nat n) = digit_char (n mod 10)"
  by (subst str_nat.simps) simp

lemma butlast_str_nat: "butlast (str_nat n) = (if n < 10 then [] else str_nat (n div 10))"
  by (subst str_nat.simps) simp

lemma hd_str_nat: "\<exists>d<10. hd (str_nat n) = digit_char d"
proof (induction n rule: str_nat.induct)
  case (1 n)
  show ?case
  proof (cases "n < 10")
    case True
    then show ?thesis by (subst str_nat.simps) auto
  next
    case False
    with 1 obtain d where "d < 10" "hd (str_nat (n div 10)) = digit_char d" by auto
    with False show ?thesis by (subst str_nat.simps) (auto simp: str_nat_nonempty)
  qed
qed

lemma str_nat_inj: "str_nat n = str_nat m \<Longrightarrow> n = m"
proof (induction n arbitrary: m rule: str_nat.induct)
  case (1 n)
  from "1.prems" have "digit_char (n mod 10) = digit_char (m mod 10)"
    by (metis last_str_nat)
  then have units: "n mod 10 = m mod 10"
    by (rule digit_char_inj[rotated 2]) simp_all
  from "1.prems" have front:
    "(if n < 10 then [] else str_nat (n div 10)) = (if m < 10 then [] else str_nat (m div 10))"
    by (metis butlast_str_nat)
  show ?case
  proof (cases "n < 10")
    case True
    then have "m < 10"
      using front str_nat_nonempty[of "m div 10"] by (auto split: if_splits)
    with True units show ?thesis by simp
  next
    case False
    then have "\<not> m < 10"
      using front str_nat_nonempty[of "n div 10"] by (auto split: if_splits)
    with False front have "str_nat (n div 10) = str_nat (m div 10)" by simp
    with False "1.IH" have "n div 10 = m div 10" by simp
    with units show ?thesis by (metis div_mult_mod_eq)
  qed
qed

lemma str_nat_not_minus: "str_nat n \<noteq> CHR ''-'' # s"
proof
  assume "str_nat n = CHR ''-'' # s"
  then have "hd (str_nat n) = CHR ''-''" by simp
  with hd_str_nat[of n] show False by (metis digit_char_not_minus)
qed

lemma str_int_inj: "str_int i = str_int j \<Longrightarrow> i = j"
proof -
  assume eq: "str_int i = str_int j"
  consider "i < 0" "j < 0" | "i < 0" "\<not> j < 0" | "\<not> i < 0" "j < 0" | "\<not> i < 0" "\<not> j < 0"
    by blast
  then show ?thesis
  proof cases
    case 1
    with eq have "str_nat (nat (- i)) = str_nat (nat (- j))" by (simp add: str_int_def)
    then have "nat (- i) = nat (- j)" by (rule str_nat_inj)
    with 1 show ?thesis by simp
  next
    case 2
    with eq have "str_nat (nat j) = CHR ''-'' # str_nat (nat (- i))" by (simp add: str_int_def)
    then show ?thesis by (simp add: str_nat_not_minus)
  next
    case 3
    with eq have "str_nat (nat i) = CHR ''-'' # str_nat (nat (- j))" by (simp add: str_int_def)
    then show ?thesis by (simp add: str_nat_not_minus)
  next
    case 4
    with eq have "str_nat (nat i) = str_nat (nat j)" by (simp add: str_int_def)
    then have "nat i = nat j" by (rule str_nat_inj)
    with 4 show ?thesis by simp
  qed
qed

section \<open>Runs of digits in a string\<close>

lemma is_digit_digit_char: "d < 10 \<Longrightarrow> is_digit (digit_char d)"
  by (simp add: is_digit_def of_char_digit_char)

lemma str_nat_digits: "list_all is_digit (str_nat n)"
proof (induction n rule: str_nat.induct)
  case (1 n)
  show ?case
  proof (cases "n < 10")
    case True
    then show ?thesis by (subst str_nat.simps) (simp add: is_digit_digit_char)
  next
    case False
    with 1 show ?thesis by (subst str_nat.simps) (simp add: is_digit_digit_char)
  qed
qed

lemma length_str_nat_le: "n < 10 ^ k \<Longrightarrow> 0 < k \<Longrightarrow> length (str_nat n) \<le> k"
proof (induction n arbitrary: k rule: str_nat.induct)
  case (1 n)
  show ?case
  proof (cases "n < 10")
    case True
    with "1.prems" show ?thesis by (subst str_nat.simps) simp
  next
    case False
    obtain j where k: "k = Suc j" using "1.prems"(2) by (cases k) auto
    with False "1.prems"(1) have "0 < j" by (cases j) auto
    moreover from k "1.prems"(1) have "n < 10 ^ j * 10" by simp
    then have "n div 10 < 10 ^ j" by (rule less_mult_imp_div_less)
    ultimately have "length (str_nat (n div 10)) \<le> j" using False "1.IH" by simp
    with False k show ?thesis by (subst str_nat.simps) simp
  qed
qed

lemma length_str_nat_gt: "10 ^ k \<le> n \<Longrightarrow> k < length (str_nat n)"
proof (induction n arbitrary: k rule: str_nat.induct)
  case (1 n)
  show ?case
  proof (cases k)
    case 0
    then show ?thesis using str_nat_nonempty[of n] by (cases "str_nat n") auto
  next
    case (Suc j)
    have one: "(1::nat) \<le> 10 ^ j" by simp
    from Suc "1.prems" have ten: "10 * 10 ^ j \<le> n" by simp
    with one have big: "\<not> n < 10" by linarith
    from ten have "10 ^ j * 10 \<le> n" by (simp add: mult.commute)
    then have "10 ^ j \<le> n div 10" by (simp add: less_eq_div_iff_mult_less_eq)
    with big "1.IH" have "j < length (str_nat (n div 10))" by simp
    with big Suc show ?thesis by (subst str_nat.simps) simp
  qed
qed

lemma sublist_across_separator:
  assumes "sublist xs (ys @ c # zs)" and "c \<notin> set xs"
  shows "sublist xs ys \<or> sublist xs zs"
proof -
  from assms(1) consider "sublist xs ys" | "sublist xs (c # zs)"
    | xs1 xs2 where "xs = xs1 @ xs2" "suffix xs1 ys" "prefix xs2 (c # zs)"
    by (auto simp add: sublist_append)
  then show ?thesis
  proof cases
    case 1
    then show ?thesis by simp
  next
    case 2
    then have "prefix xs (c # zs) \<or> sublist xs zs" by (simp add: sublist_Cons_right)
    with assms(2) show ?thesis by (cases xs) auto
  next
    case 3
    with assms(2) have "xs2 = []" by (cases xs2) auto
    with 3 have "suffix xs ys" by simp
    then show ?thesis by (simp add: suffix_imp_sublist)
  qed
qed

lemma digit_runs_le_short: "length ys \<le> k \<Longrightarrow> digit_runs_le k ys"
  unfolding digit_runs_le_def by (meson sublist_length_le order_trans)

lemma digit_runs_le_sep:
  assumes "digit_runs_le k ys" and "digit_runs_le k zs" and "\<not> is_digit c"
  shows "digit_runs_le k (ys @ c # zs)"
  unfolding digit_runs_le_def
proof (intro allI impI)
  fix xs assume xs: "sublist xs (ys @ c # zs) \<and> list_all is_digit xs"
  then have sub: "sublist xs (ys @ c # zs)" and digits: "list_all is_digit xs" by simp_all
  from digits assms(3) have "c \<notin> set xs" by (auto simp add: list_all_iff)
  with sub have "sublist xs ys \<or> sublist xs zs" by (rule sublist_across_separator)
  then show "length xs \<le> k"
  proof
    assume "sublist xs ys"
    with digits assms(1) show ?thesis by (simp add: digit_runs_le_def)
  next
    assume "sublist xs zs"
    with digits assms(2) show ?thesis by (simp add: digit_runs_le_def)
  qed
qed

lemma digit_runs_le_Cons:
  assumes "digit_runs_le k zs" and "\<not> is_digit c"
  shows "digit_runs_le k (c # zs)"
  using digit_runs_le_sep[of k "[]" zs c] assms by (simp add: digit_runs_le_short)

lemma digit_runs_le_one:
  assumes "digit_runs_le k zs" and "\<not> is_digit c" and "1 \<le> k"
  shows "digit_runs_le k (d # c # zs)"
  using digit_runs_le_sep[of k "[d]" zs c] assms by (simp add: digit_runs_le_short)

lemma digit_runs_le_hides:
  assumes "digit_runs_le k ys" and "list_all is_digit xs" and "k < length xs"
  shows "\<not> sublist xs ys"
proof
  assume "sublist xs ys"
  with assms(1,2) have "length xs \<le> k" by (simp add: digit_runs_le_def)
  with assms(3) show False by simp
qed

lemma digit_runs_le_prepend:
  assumes "list_all (\<lambda>c. \<not> is_digit c) sep" and "digit_runs_le k zs"
  shows "digit_runs_le k (sep @ zs)"
  using assms by (induction sep) (simp_all add: digit_runs_le_Cons)

lemma digit_runs_le_between:
  assumes "digit_runs_le k ys" and "digit_runs_le k zs"
    and "list_all (\<lambda>c. \<not> is_digit c) sep" and "sep \<noteq> []"
  shows "digit_runs_le k (ys @ sep @ zs)"
proof (cases sep)
  case Nil
  with assms(4) show ?thesis by simp
next
  case (Cons c sep')
  with assms(3) have "\<not> is_digit c" and "list_all (\<lambda>c. \<not> is_digit c) sep'" by simp_all
  with assms(1,2) have "digit_runs_le k (ys @ c # (sep' @ zs))"
    by (intro digit_runs_le_sep digit_runs_le_prepend)
  with Cons show ?thesis by simp
qed

lemma formula_digit_runs:
  assumes "digit_runs_le 7 a" and "digit_runs_le 7 b" and "digit_runs_le 7 c"
  shows "digit_runs_le 7
    (a @ '' * '' @ b @ '' + '' @ c @ ''^2 - ('' @ a @ '' % '' @ c @ '')'')"
proof -
  have split: "a @ '' * '' @ b @ '' + '' @ c @ ''^2 - ('' @ a @ '' % '' @ c @ '')''
    = a @ '' * '' @ b @ '' + '' @ c @ ''^'' @ ''2'' @ '' - ('' @ a @ '' % '' @ c @ '')'' @ []"
    by simp
  show ?thesis
    unfolding split
    by (intro digit_runs_le_between assms digit_runs_le_short)
      (simp_all add: is_digit_def)
qed

lemma description_digit_runs:
  "digit_runs_le 1 ''Calculate: (num1 * num2) + (num3^2) - (num1 % num3)''"
proof -
  have split: "''Calculate: (num1 * num2) + (num3^2) - (num1 % num3)''
    = ''Calculate: (num'' @ ''1'' @ '' * num'' @ ''2'' @ '') + (num'' @ ''3'' @ ''^'' @ ''2''
        @ '') - (num'' @ ''1'' @ '' % num'' @ ''3'' @ '')'' @ []"
    by simp
  show ?thesis
    unfolding split
    by (intro digit_runs_le_prepend digit_runs_le_between digit_runs_le_short)
      (simp_all add: is_digit_def)
qed

lemma instructions_digit_runs:
  "digit_runs_le 0 ''Please calculate the result and provide it in the 'number' parameter when calling trustgo_login''"
  using digit_runs_le_prepend[of "''Please calculate the result and provide it in the 'number' parameter when calling trustgo_login''" 0 "[]"]
  by (simp add: is_digit_def digit_runs_le_short)

lemma str_int_digit_runs:
  assumes "\<bar>i\<bar> < 10 ^ k" and "0 < k"
  shows "digit_runs_le k (str_int i)"
proof (cases "i < 0")
  case True
  with assms(1) have "nat (- i) < 10 ^ k" by (simp add: nat_less_iff)
  then have "length (str_nat (nat (- i))) \<le> k" using assms(2) by (rule length_str_nat_le)
  then have "digit_runs_le k (str_nat (nat (- i)))" by (rule digit_runs_le_short)
  then have "digit_runs_le k (CHR ''-'' # str_nat (nat (- i)))"
    by (rule digit_runs_le_Cons) (simp add: is_digit_def)
  with True show ?thesis by (simp add: str_int_def)
next
  case False
  with assms(1) have "nat i < 10 ^ k" by (simp add: nat_less_iff)
  then have "length (str_nat (nat i)) \<le> k" using assms(2) by (rule length_str_nat_le)
  then have "digit_runs_le k (str_nat (nat i))" by (rule digit_runs_le_short)
  with False show ?thesis by (simp add: str_int_def)
qed

lemma str_int_long:
  assumes "10 ^ k \<le> i"
  shows "list_all is_digit (str_int i) \<and> k < length (str_int i)"
proof -
  have "(0::int) < 10 ^ k" by simp
  with assms have pos: "\<not> i < 0" by linarith
  from assms have "10 ^ k \<le> nat i" by (simp add: le_nat_iff)
  then have "k < length (str_nat (nat i))" by (rule length_str_nat_gt)
  with pos show ?thesis by (simp add: str_int_def str_nat_digits)
qed

section \<open>The login verifier\<close>

lemma trustgo_login_response_challenges:
  "challenge_storage (snd (trustgo_login_response st now a sg m outcome)) = challenge_storage st"
  by (simp add: trustgo_login_response_def Let_def
      split: http_outcome.splits sum.splits option.splits)

lemma trustgo_login_response_errors:
  "trustgo_login_response st now a sg m outcome = (Error e, st') \<Longrightarrow>
     st' = st \<and> ((\<exists>x. e = Login_Failed_Exception x) \<or> (\<exists>x. e = Login_Failed_Upstream x)
       \<or> e = Signature_Rejected a sg)"
  by (auto simp add: trustgo_login_response_def Let_def
      split: http_outcome.splits sum.splits option.splits if_splits)

lemma trustgo_login_checks_Inr:
  "trustgo_login_checks st a m number = Inr st1 \<longleftrightarrow>
     (\<exists>entry c n. challenge_storage st (Some a) = Some entry \<and> login entry = Some c \<and>
        m = message c \<and> number = Some n \<and> number_eq n (expected_answer c) \<and>
        st1 = st\<lparr>challenge_storage := (challenge_storage st)(Some a := None)\<rparr>)"
  by (auto simp add: trustgo_login_checks_def split: option.splits)

lemma trustgo_login_checks_Incorrect:
  "trustgo_login_checks st a m number = Inl (Incorrect_Answer x n) \<Longrightarrow>
     \<exists>entry c. challenge_storage st (Some a) = Some entry \<and> login entry = Some c \<and>
        m = message c \<and> x = expected_answer c"
  by (auto simp add: trustgo_login_checks_def split: option.splits if_splits)

text \<open>
  Claim C10. A call of \<^verbatim>\<open>trustgo_login\<close> that returns one of the four errors of the
  local checks (no challenge, message mismatch, missing number, incorrect number) leaves
  the challenge store and the session store as they were. In particular an incorrect
  answer does not consume the challenge: a retry with the same message and the expected
  value passes the local checks against the same stores.
\<close>

theorem failed_login_leaves_stores_unchanged:
  assumes "trustgo_login upstream now st a sg m ic ifr number = (Error e, st')"
    and "e = No_Challenge \<or> e = Challenge_Mismatch \<or> e = Missing_Answer
           \<or> (\<exists>x n. e = Incorrect_Answer x n)"
  shows "challenge_storage st' = challenge_storage st \<and> auth_tokens st' = auth_tokens st
    \<and> (\<forall>x n. e = Incorrect_Answer x n \<longrightarrow>
          trustgo_login_checks st' a m (Some (PyInt x)) =
            Inr (st\<lparr>challenge_storage := (challenge_storage st)(Some a := None)\<rparr>))"
proof -
  from assms have same: "st' = st \<and> trustgo_login_checks st a m number = Inl e"
    by (auto simp add: trustgo_login_def split: sum.splits dest: trustgo_login_response_errors)
  have "trustgo_login_checks st a m (Some (PyInt x)) =
          Inr (st\<lparr>challenge_storage := (challenge_storage st)(Some a := None)\<rparr>)"
    if "e = Incorrect_Answer x n" for x n
  proof -
    from same that obtain entry c where
      "challenge_storage st (Some a) = Some entry" "login entry = Some c"
      "m = message c" "x = expected_answer c"
      using trustgo_login_checks_Incorrect by blast
    then show ?thesis by (simp add: trustgo_login_checks_Inr)
  qed
  with same show ?thesis by simp
qed

theorem failed_login_leaves_stores_unchanged_witness:
  "trustgo_login unreachable ''2023-11-14T22:14:00'' example_state ''0xABC'' ''0xsig''
     ''sign the message to login trustgo1700000000'' None None (Some (PyInt 7))
   = (Error (Incorrect_Answer 1000000010000 (PyInt 7)), example_state)
   \<and> trustgo_login_checks example_state ''0xABC''
        ''sign the message to login trustgo1700000000'' (Some (PyInt 1000000010000))
      = Inr (example_state\<lparr>challenge_storage :=
               (challenge_storage example_state)(Some ''0xABC'' := None)\<rparr>)"
proof -
  let ?call = "trustgo_login unreachable ''2023-11-14T22:14:00'' example_state ''0xABC''
     ''0xsig'' ''sign the message to login trustgo1700000000'' None None (Some (PyInt 7))"
  have run: "?call = (Error (Incorrect_Answer 1000000010000 (PyInt 7)), snd ?call)"
    by (simp add: trustgo_login_def trustgo_login_checks_def example_state_def
        example_challenge_def)
  have kind: "Incorrect_Answer 1000000010000 (PyInt 7) = No_Challenge
      \<or> Incorrect_Answer 1000000010000 (PyInt 7) = Challenge_Mismatch
      \<or> Incorrect_Answer 1000000010000 (PyInt 7) = Missing_Answer
      \<or> (\<exists>x n. Incorrect_Answer 1000000010000 (PyInt 7) = Incorrect_Answer x n)"
    by simp
  from failed_login_leaves_stores_unchanged[OF run kind]
  have "snd ?call = example_state"
    and "trustgo_login_checks (snd ?call) ''0xABC''
        ''sign the message to login trustgo1700000000'' (Some (PyInt 1000000010000))
      = Inr (example_state\<lparr>challenge_storage :=
               (challenge_storage example_state)(Some ''0xABC'' := None)\<rparr>)"
    by simp_all
  with run show ?thesis by simp
qed

text \<open>
  Claim C1. When the challenge of an address passes the four local checks (challenge
  present, message equal, number present, number equal to the expected answer),
  \<^verbatim>\<open>trustgo_login\<close> deletes the stored challenge before the upstream exchange is
  consulted: the stores handed to the part after the HTTP call no longer hold it, whatever
  the upstream answers (a raised exception included), the challenge is absent from the
  resulting stores, and a second attempt with the same message, signature and number
  returns the no-challenge error.
\<close>

theorem login_challenge_consumed_before_upstream:
  assumes "challenge_storage st (Some a) = Some entry" and "login entry = Some c"
    and "m = message c" and "number_eq n (expected_answer c)"
  shows "trustgo_login_checks st a m (Some n) =
           Inr (st\<lparr>challenge_storage := (challenge_storage st)(Some a := None)\<rparr>)
     \<and> trustgo_login upstream now st a sg m ic ifr (Some n) =
           trustgo_login_response
             (st\<lparr>challenge_storage := (challenge_storage st)(Some a := None)\<rparr>) now a sg m
             (upstream \<lparr>req_address = a, req_message = m, req_mode = ''evm'',
                        req_signature = sg, req_invite_code = ic, req_invite_from = ifr\<rparr>)
     \<and> challenge_storage (snd (trustgo_login upstream now st a sg m ic ifr (Some n))) (Some a)
           = None
     \<and> fst (trustgo_login upstream' now'
              (snd (trustgo_login upstream now st a sg m ic ifr (Some n)))
              a sg m ic ifr (Some n)) = Error No_Challenge"
proof -
  let ?st1 = "st\<lparr>challenge_storage := (challenge_storage st)(Some a := None)\<rparr>"
  from assms have checks: "trustgo_login_checks st a m (Some n) = Inr ?st1"
    by (simp add: trustgo_login_checks_Inr)
  then have run: "trustgo_login upstream now st a sg m ic ifr (Some n) =
      trustgo_login_response ?st1 now a sg m
        (upstream \<lparr>req_address = a, req_message = m, req_mode = ''evm'',
                   req_signature = sg, req_invite_code = ic, req_invite_from = ifr\<rparr>)"
    by (simp add: trustgo_login_def)
  then have gone:
    "challenge_storage (snd (trustgo_login upstream now st a sg m ic ifr (Some n))) (Some a) = None"
    by (simp add: trustgo_login_response_challenges)
  then have "trustgo_login_checks (snd (trustgo_login upstream now st a sg m ic ifr (Some n)))
      a m (Some n) = Inl No_Challenge"
    by (simp add: trustgo_login_checks_def)
  then have "fst (trustgo_login upstream' now'
              (snd (trustgo_login upstream now st a sg m ic ifr (Some n)))
              a sg m ic ifr (Some n)) = Error No_Challenge"
    by (simp add: trustgo_login_def)
  with checks run gone show ?thesis by simp
qed

theorem login_challenge_consumed_before_upstream_witness:
  "trustgo_login unreachable ''2023-11-14T22:14:00'' example_state ''0xABC'' ''0xsig''
     ''sign the message to login trustgo1700000000'' None None (Some (PyInt 1000000010000))
   = (Error (Login_Failed_Exception (Upstream_Exception ''Cannot connect to host'')),
      initial_state)
   \<and> fst (trustgo_login unreachable ''2023-11-14T22:15:00''
        (snd (trustgo_login unreachable ''2023-11-14T22:14:00'' example_state ''0xABC'' ''0xsig''
     ''sign the message to login trustgo1700000000'' None None (Some (PyInt 1000000010000))))
        ''0xABC'' ''0xsig''
     ''sign the message to login trustgo1700000000'' None None (Some (PyInt 1000000010000)))
     = Error No_Challenge"
proof -
  have h1: "challenge_storage example_state (Some ''0xABC'') =
      Some \<lparr>login = Some example_challenge, twitter = None\<rparr>"
    by (simp add: example_state_def)
  have h2: "login \<lparr>login = Some example_challenge, twitter = None\<rparr> = Some example_challenge"
    by simp
  have h3: "''sign the message to login trustgo1700000000'' = message example_challenge"
    by (simp add: example_challenge_def)
  have h4: "number_eq (PyInt 1000000010000) (expected_answer example_challenge)"
    by (simp add: example_challenge_def)
  note w = login_challenge_consumed_before_upstream[OF h1 h2 h3 h4, of unreachable "''2023-11-14T22:14:00''" "''0xsig''" None None
      unreachable "''2023-11-14T22:15:00''"]
  have resp: "trustgo_login_response
          (example_state\<lparr>challenge_storage :=
             (challenge_storage example_state)(Some ''0xABC'' := None)\<rparr>)
          ''2023-11-14T22:14:00'' ''0xABC'' ''0xsig''
          ''sign the message to login trustgo1700000000''
          (unreachable \<lparr>req_address = ''0xABC'',
             req_message = ''sign the message to login trustgo1700000000'', req_mode = ''evm'',
             req_signature = ''0xsig'', req_invite_code = None, req_invite_from = None\<rparr>)
        = (Error (Login_Failed_Exception (Upstream_Exception ''Cannot connect to host'')),
           initial_state)"
    by (simp add: trustgo_login_response_def unreachable_def example_state_def
        initial_state_def)
  from w[THEN conjunct2, THEN conjunct1] resp
  have first: "trustgo_login unreachable ''2023-11-14T22:14:00'' example_state ''0xABC''
      ''0xsig'' ''sign the message to login trustgo1700000000'' None None
      (Some (PyInt 1000000010000))
    = (Error (Login_Failed_Exception (Upstream_Exception ''Cannot connect to host'')),
       initial_state)"
    by (rule trans)
  from first w[THEN conjunct2, THEN conjunct2, THEN conjunct2] show ?thesis
    by (rule conjI)
qed

text \<open>
  Claim C7, as stated, fails in its second half at two inputs. When the upstream answers
  status 200 and a true \<^verbatim>\<open>success\<close> with \<^verbatim>\<open>"data": null\<close>, the token is missing,
  but \<^verbatim>\<open>response_data.get('data', {})\<close> yields \<^verbatim>\<open>None\<close>, the lookup of the token
  raises \<^verbatim>\<open>AttributeError\<close> and the result is the handler's "TrustGo login failed", not
  the signature-rejected error. And when the address holds a token of an earlier login,
  a rejected signature leaves that token stored: the call writes nothing to the session
  store, so a token is still stored for the address.
\<close>

theorem null_data_and_earlier_token_after_upstream_success:
  "fst (trustgo_login answering_null_data ''2023-11-14T22:14:00'' example_state ''0xABC''
         ''0xsig'' ''sign the message to login trustgo1700000000'' None None
         (Some (PyInt 1000000010000)))
     = Error (Login_Failed_Exception (AttributeError_None ''get''))
   \<and> fst (trustgo_login (accepting []) ''2023-11-14T22:20:00'' example_relogin_state ''0xABC''
         ''0xsig'' ''sign the message to login trustgo1700000000'' None None
         (Some (PyInt 1000000010000)))
     = Error (Signature_Rejected ''0xABC'' ''0xsig'')
   \<and> Option.bind (auth_tokens (snd (trustgo_login (accepting []) ''2023-11-14T22:20:00''
         example_relogin_state ''0xABC'' ''0xsig''
         ''sign the message to login trustgo1700000000'' None None
         (Some (PyInt 1000000010000)))) ''0xABC'') trustgo_token
     = Some ''tok-1''"
  by (simp add: trustgo_login_def trustgo_login_checks_def trustgo_login_response_def
      answering_null_data_def accepting_def example_state_def example_relogin_state_def
      example_challenge_def)

text \<open>
  Claim C7, amended. After the local checks have passed and the upstream exchange has
  answered with status 200 and a true \<^verbatim>\<open>success\<close>: a non-empty token is stored for the
  address with the time of the login, other addresses keep their sessions, and the result
  is the success dictionary carrying the token; a token that is empty or missing because
  the answer has no \<^verbatim>\<open>data\<close> key, or a \<^verbatim>\<open>data\<close> object without a token or with a null
  or empty one, gives the signature-rejected error, and the session store is left as it
  was (this call stores no token, and what an earlier login stored stays).
\<close>

theorem upstream_response_decides_login:
  assumes "trustgo_login_checks st a m number = Inr st1"
    and "upstream \<lparr>req_address = a, req_message = m, req_mode = ''evm'',
                   req_signature = sg, req_invite_code = ic, req_invite_from = ifr\<rparr>
           = Response r"
    and "resp_status r = 200" and "resp_success r"
  shows "(\<forall>t. resp_data r = Data_Object (Some t) \<and> t \<noteq> [] \<longrightarrow>
            (\<exists>st' s. trustgo_login upstream now st a sg m ic ifr number =
                 (Success \<lparr>ls_message = ''TrustGo login successful'', ls_address = a,
                           ls_token = t, ls_login_message = m\<rparr>, st')
               \<and> auth_tokens st' a = Some s \<and> trustgo_token s = Some t
               \<and> trustgo_login_time s = Some now
               \<and> (\<forall>b. b \<noteq> a \<longrightarrow> auth_tokens st' b = auth_tokens st b)))
       \<and> (resp_data r = Data_Absent \<or> resp_data r = Data_Object None
            \<or> resp_data r = Data_Object (Some []) \<longrightarrow>
            trustgo_login upstream now st a sg m ic ifr number
              = (Error (Signature_Rejected a sg), st1)
            \<and> auth_tokens st1 = auth_tokens st)"
proof -
  from assms(1) have st1: "st1 = st\<lparr>challenge_storage := (challenge_storage st)(Some a := None)\<rparr>"
    by (auto simp add: trustgo_login_checks_Inr)
  from assms have run: "trustgo_login upstream now st a sg m ic ifr number =
      trustgo_login_response st1 now a sg m (Response r)"
    by (simp add: trustgo_login_def)
  show ?thesis
    using assms(3,4) unfolding run
    by (auto simp add: trustgo_login_response_def st1 Let_def split: option.splits)
qed

theorem upstream_response_decides_login_witness:
  "fst (trustgo_login (accepting ''tok-1'') ''2023-11-14T22:14:00'' example_state ''0xABC''
       ''0xsig'' ''sign the message to login trustgo1700000000'' None None
       (Some (PyInt 1000000010000)))
     = Success \<lparr>ls_message = ''TrustGo login successful'', ls_address = ''0xABC'',
                ls_token = ''tok-1'',
                ls_login_message = ''sign the message to login trustgo1700000000''\<rparr>
   \<and> auth_tokens (snd (trustgo_login (accepting ''tok-1'') ''2023-11-14T22:14:00''
       example_state ''0xABC'' ''0xsig'' ''sign the message to login trustgo1700000000''
       None None (Some (PyInt 1000000010000)))) ''0xABC''
     = Some \<lparr>trustgo_token = Some ''tok-1'', trustgo_login_time = Some ''2023-11-14T22:14:00''\<rparr>
   \<and> trustgo_login (accepting []) ''2023-11-14T22:14:00'' example_state ''0xABC''
       ''0xsig'' ''sign the message to login trustgo1700000000'' None None
       (Some (PyInt 1000000010000))
     = (Error (Signature_Rejected ''0xABC'' ''0xsig''), initial_state)"
proof -
  let ?m = "''sign the message to login trustgo1700000000''"
  let ?st1 = "example_state\<lparr>challenge_storage :=
                (challenge_storage example_state)(Some ''0xABC'' := None)\<rparr>"
  let ?r = "\<lambda>tok. \<lparr>resp_status = 200, resp_success = True, resp_data = Data_Object (Some tok),
               resp_message = None\<rparr>"
  have checks: "trustgo_login_checks example_state ''0xABC'' ?m (Some (PyInt 1000000010000))
      = Inr ?st1"
    by (simp add: trustgo_login_checks_def example_state_def example_challenge_def)
  have up: "accepting tok \<lparr>req_address = ''0xABC'', req_message = ?m, req_mode = ''evm'',
      req_signature = ''0xsig'', req_invite_code = None, req_invite_from = None\<rparr>
      = Response (?r tok)" for tok
    by (simp add: accepting_def)
  have ok: "resp_status (?r tok) = 200" "resp_success (?r tok)" for tok
    by simp_all
  note good = upstream_response_decides_login[where upstream = "accepting ''tok-1''" and now = "''2023-11-14T22:14:00''",
      OF checks up[of "''tok-1''"] ok(1)[of "''tok-1''"] ok(2)[of "''tok-1''"]]
  note bad = upstream_response_decides_login[where upstream = "accepting []" and now = "''2023-11-14T22:14:00''",
      OF checks up[of "[]"] ok(1)[of "[]"] ok(2)[of "[]"]]
  from good obtain st' s where
    "trustgo_login (accepting ''tok-1'') ''2023-11-14T22:14:00'' example_state ''0xABC''
       ''0xsig'' ?m None None (Some (PyInt 1000000010000))
     = (Success \<lparr>ls_message = ''TrustGo login successful'', ls_address = ''0xABC'',
                ls_token = ''tok-1'', ls_login_message = ?m\<rparr>, st')"
    "auth_tokens st' ''0xABC'' = Some s" "trustgo_token s = Some ''tok-1''"
    "trustgo_login_time s = Some ''2023-11-14T22:14:00''"
    by auto
  moreover from bad have "trustgo_login (accepting []) ''2023-11-14T22:14:00'' example_state
       ''0xABC'' ''0xsig'' ?m None None (Some (PyInt 1000000010000))
     = (Error (Signature_Rejected ''0xABC'' ''0xsig''), ?st1)"
    by simp
  moreover have "?st1 = initial_state"
    by (simp add: example_state_def initial_state_def)
  ultimately show ?thesis
    by (cases s) simp
qed

text \<open>
  The order of the local checks, for an address whose entry is absent or holds a login
  challenge.
\<close>

lemma trustgo_login_check_order:
  "(challenge_storage st (Some a) = None \<longrightarrow>
      trustgo_login upstream now st a sg m ic ifr number = (Error No_Challenge, st))
   \<and> (\<forall>entry c. challenge_storage st (Some a) = Some entry \<and> login entry = Some c \<longrightarrow>
        (m \<noteq> message c \<longrightarrow>
           trustgo_login upstream now st a sg m ic ifr number = (Error Challenge_Mismatch, st))
      \<and> (m = message c \<and> number = None \<longrightarrow>
           trustgo_login upstream now st a sg m ic ifr number = (Error Missing_Answer, st))
      \<and> (\<forall>n. m = message c \<and> number = Some n \<and> \<not> number_eq n (expected_answer c) \<longrightarrow>
           trustgo_login upstream now st a sg m ic ifr number
             = (Error (Incorrect_Answer (expected_answer c) n), st)))"
  by (simp add: trustgo_login_def trustgo_login_checks_def)

text \<open>
  Claim C2. The claim's chain of checks holds for an address whose entry is absent or
  holds a login challenge (\<open>trustgo_login_check_order\<close>). It fails for an address that
  only has a social-binding challenge: \<^verbatim>\<open>login_twitter\<close> creates the entry of the
  address with the \<^verbatim>\<open>twitter\<close> key alone, the membership test
  \<^verbatim>\<open>address not in challenge_storage\<close> then finds an entry although no login challenge
  is stored, and \<^verbatim>\<open>challenge["message"]\<close> raises \<^verbatim>\<open>KeyError\<close>. The result is the
  handler's "TrustGo login failed: 'message'" for every message, signature and number,
  not the no-challenge error.
\<close>

theorem trustgo_login_after_login_twitter_only:
  "fst (trustgo_login upstream now (snd (login_twitter r initial_state (Some ''0xABC'')))
         ''0xABC'' sg m ic ifr number)
     = Error (Login_Failed_Exception (KeyError (Some ''message'')))"
  by (simp add: trustgo_login_def trustgo_login_checks_def login_twitter_def
      initial_state_def Let_def)

section \<open>The login challenge generator\<close>

lemma randint_range:
  assumes "a \<le> b"
  shows "a \<le> randint a b r \<and> randint a b r \<le> b"
proof -
  from assms have pos: "0 < b - a + 1" by simp
  then have "0 \<le> int r mod (b - a + 1)" by (rule pos_mod_sign)
  moreover from pos have "int r mod (b - a + 1) < b - a + 1" by (rule pos_mod_bound)
  ultimately show ?thesis unfolding randint_def by linarith
qed

lemma get_trustgo_login_message_Success:
  assumes "get_trustgo_login_message d ts created r1 r2 r3 st address = (Success res, st')"
  shows "py_or address d \<noteq> []"
    and "res = \<lparr>lm_message = ''sign the message to login trustgo'' @ str_int ts,
               lm_calculation_challenge =
                 \<lparr>description = ''Calculate: (num1 * num2) + (num3^2) - (num1 % num3)'',
                  num1 = randint 1000000 9999999 r1, num2 = randint 1000000 9999999 r2,
                  num3 = randint 100 999 r3,
                  formula = str_int (randint 1000000 9999999 r1) @ '' * ''
                    @ str_int (randint 1000000 9999999 r2) @ '' + ''
                    @ str_int (randint 100 999 r3) @ ''^2 - (''
                    @ str_int (randint 1000000 9999999 r1) @ '' % ''
                    @ str_int (randint 100 999 r3) @ '')''\<rparr>,
               lm_instructions = ''Please calculate the result and provide it in the 'number' parameter when calling trustgo_login''\<rparr>"
    and "st' = st\<lparr>challenge_storage := (challenge_storage st)(Some (py_or address d) \<mapsto>
              \<lparr>login = Some \<lparr>expected_answer =
                   (randint 1000000 9999999 r1 * randint 1000000 9999999 r2)
                   + (randint 100 999 r3)\<^sup>2
                   - (randint 1000000 9999999 r1 mod randint 100 999 r3),
                 timestamp = ts,
                 message = ''sign the message to login trustgo'' @ str_int ts,
                 challenge_created = created\<rparr>,
               twitter = None\<rparr>)\<rparr>"
  using assms
  by (auto simp add: get_trustgo_login_message_def Let_def split: if_splits)

lemma answer_above_operands:
  assumes "1000000 \<le> (n1::int)" "n1 \<le> 9999999" "1000000 \<le> (n2::int)" "n2 \<le> 9999999"
    "100 \<le> (n3::int)" "n3 \<le> 999"
  shows "9999999 < (n1 * n2) + n3\<^sup>2 - (n1 mod n3)"
proof -
  have "1000000 * 1000000 \<le> n1 * n2"
    using assms by (intro mult_mono) simp_all
  moreover have "n1 mod n3 < n3" using assms by simp
  moreover have "0 \<le> n3\<^sup>2" by simp
  ultimately show ?thesis using assms by linarith
qed

lemma answer_at_least:
  assumes "1000000 \<le> (n1::int)" "1000000 \<le> (n2::int)" "100 \<le> (n3::int)"
  shows "10 ^ 12 \<le> (n1 * n2) + n3\<^sup>2 - (n1 mod n3)"
proof -
  have "1000000 * 1000000 \<le> n1 * n2"
    using assms by (intro mult_mono) simp_all
  moreover have "n1 mod n3 < n3" using assms by simp
  moreover have "n3 * 1 \<le> n3 * n3" using assms by (intro mult_left_mono) simp_all
  ultimately show ?thesis by (simp add: power2_eq_square)
qed

text \<open>
  Claim C3. For every challenge that \<^verbatim>\<open>get_trustgo_login_message\<close> produces, the
  expected answer stored for the address equals \<open>(num1 * num2) + num3\<^sup>2 - (num1 mod num3)\<close>
  computed from the three operands of the returned dictionary, where \<open>num1\<close> and \<open>num2\<close>
  lie in [1000000, 9999999] and \<open>num3\<close> lies in [100, 999]. Python's \<^verbatim>\<open>%\<close> with a
  positive divisor is \<open>mod\<close> on \<open>int\<close>.
\<close>

theorem stored_answer_matches_disclosed_operands:
  assumes "get_trustgo_login_message d ts created r1 r2 r3 st address = (Success res, st')"
  shows "\<exists>entry c. challenge_storage st' (Some (py_or address d)) = Some entry
      \<and> login entry = Some c
      \<and> expected_answer c =
          (num1 (lm_calculation_challenge res) * num2 (lm_calculation_challenge res))
          + (num3 (lm_calculation_challenge res))\<^sup>2
          - (num1 (lm_calculation_challenge res) mod num3 (lm_calculation_challenge res))
      \<and> 1000000 \<le> num1 (lm_calculation_challenge res)
      \<and> num1 (lm_calculation_challenge res) \<le> 9999999
      \<and> 1000000 \<le> num2 (lm_calculation_challenge res)
      \<and> num2 (lm_calculation_challenge res) \<le> 9999999
      \<and> 100 \<le> num3 (lm_calculation_challenge res)
      \<and> num3 (lm_calculation_challenge res) \<le> 999"
  using get_trustgo_login_message_Success(2,3)[OF assms]
    randint_range[of 1000000 9999999 r1] randint_range[of 1000000 9999999 r2]
    randint_range[of 100 999 r3]
  by simp

theorem stored_answer_matches_disclosed_operands_witness:
  "map_option expected_answer (Option.bind (challenge_storage (snd
      (get_trustgo_login_message [] 1700000000 ''2023-11-14T22:13:20'' 0 0 0 initial_state
         (Some ''0xABC''))) (Some ''0xABC'')) login) = Some 1000000010000
   \<and> map_option (num1 \<circ> lm_calculation_challenge) (the_success (fst
      (get_trustgo_login_message [] 1700000000 ''2023-11-14T22:13:20'' 0 0 0 initial_state
         (Some ''0xABC'')))) = Some 1000000
   \<and> map_option (num2 \<circ> lm_calculation_challenge) (the_success (fst
      (get_trustgo_login_message [] 1700000000 ''2023-11-14T22:13:20'' 0 0 0 initial_state
         (Some ''0xABC'')))) = Some 1000000
   \<and> map_option (num3 \<circ> lm_calculation_challenge) (the_success (fst
      (get_trustgo_login_message [] 1700000000 ''2023-11-14T22:13:20'' 0 0 0 initial_state
         (Some ''0xABC'')))) = Some 100"
proof -
  let ?call = "get_trustgo_login_message [] 1700000000 ''2023-11-14T22:13:20'' 0 0 0
    initial_state (Some ''0xABC'')"
  let ?res = "\<lparr>lm_message = ''sign the message to login trustgo'' @ str_int 1700000000,
               lm_calculation_challenge =
                 \<lparr>description = ''Calculate: (num1 * num2) + (num3^2) - (num1 % num3)'',
                  num1 = 1000000, num2 = 1000000, num3 = 100,
                  formula = str_int 1000000 @ '' * '' @ str_int 1000000 @ '' + ''
                    @ str_int 100 @ ''^2 - ('' @ str_int 1000000 @ '' % ''
                    @ str_int 100 @ '')''\<rparr>,
               lm_instructions = ''Please calculate the result and provide it in the 'number' parameter when calling trustgo_login''\<rparr>"
  have run: "?call = (Success ?res, snd ?call)"
    by (simp add: get_trustgo_login_message_def py_or_def randint_def Let_def)
  from stored_answer_matches_disclosed_operands[OF run] obtain entry c where
    "challenge_storage (snd ?call) (Some (py_or (Some ''0xABC'') [])) = Some entry"
    "login entry = Some c"
    "expected_answer c = 1000000 * 1000000 + 100\<^sup>2 - 1000000 mod 100"
    by auto
  then have "map_option expected_answer
      (Option.bind (challenge_storage (snd ?call) (Some ''0xABC'')) login) = Some 1000000010000"
    by (simp add: py_or_def)
  moreover have "the_success (fst ?call) = Some ?res"
    by (subst run) simp
  ultimately show ?thesis by simp
qed

text \<open>
  Claim C8. The dictionary that a successful \<^verbatim>\<open>get_trustgo_login_message\<close> returns has
  the keys \<^verbatim>\<open>status\<close>, \<^verbatim>\<open>message\<close>, \<^verbatim>\<open>calculation_challenge\<close> and
  \<^verbatim>\<open>instructions\<close> (the record \<open>login_message\<close>). It carries the formula description
  and the three operands; its formula string is built from the operands, its message from
  the clock, and its instructions are a constant. The expected answer stored for the
  address is in none of its values: each integer it carries is smaller than the answer,
  and the decimal rendering of the answer is no part of the description, of the formula
  string or of the instructions (the answer has at least thirteen digits, and these
  strings have no run of more than seven). The same holds for the message as long as the
  clock reads fewer than \<open>10\<^sup>1\<^sup>2\<close> seconds, which Unix time does for the next thirty
  thousand years; the message is the fixed prefix followed by the clock's reading in any
  case.
\<close>

theorem login_message_result_hides_expected_answer:
  assumes "get_trustgo_login_message d ts created r1 r2 r3 st address = (Success res, st')"
  shows "description (lm_calculation_challenge res)
           = ''Calculate: (num1 * num2) + (num3^2) - (num1 % num3)''
      \<and> num1 (lm_calculation_challenge res) = randint 1000000 9999999 r1
      \<and> num2 (lm_calculation_challenge res) = randint 1000000 9999999 r2
      \<and> num3 (lm_calculation_challenge res) = randint 100 999 r3
      \<and> formula (lm_calculation_challenge res)
           = str_int (num1 (lm_calculation_challenge res)) @ '' * ''
             @ str_int (num2 (lm_calculation_challenge res)) @ '' + ''
             @ str_int (num3 (lm_calculation_challenge res)) @ ''^2 - (''
             @ str_int (num1 (lm_calculation_challenge res)) @ '' % ''
             @ str_int (num3 (lm_calculation_challenge res)) @ '')''
      \<and> lm_message res = ''sign the message to login trustgo'' @ str_int ts
      \<and> lm_instructions res = ''Please calculate the result and provide it in the 'number' parameter when calling trustgo_login''
      \<and> (\<exists>entry c. challenge_storage st' (Some (py_or address d)) = Some entry
            \<and> login entry = Some c
            \<and> num1 (lm_calculation_challenge res) < expected_answer c
            \<and> num2 (lm_calculation_challenge res) < expected_answer c
            \<and> num3 (lm_calculation_challenge res) < expected_answer c
            \<and> \<not> sublist (str_int (expected_answer c))
                  (description (lm_calculation_challenge res))
            \<and> \<not> sublist (str_int (expected_answer c)) (formula (lm_calculation_challenge res))
            \<and> \<not> sublist (str_int (expected_answer c)) (lm_instructions res)
            \<and> (\<bar>ts\<bar> < 1000000000000 \<longrightarrow>
                  \<not> sublist (str_int (expected_answer c)) (lm_message res)))"
proof -
  let ?n1 = "randint 1000000 9999999 r1"
  let ?n2 = "randint 1000000 9999999 r2"
  let ?n3 = "randint 100 999 r3"
  let ?answer = "(?n1 * ?n2) + ?n3\<^sup>2 - (?n1 mod ?n3)"
  let ?shown = "str_int ?answer"
  note r = randint_range[of 1000000 9999999 r1] randint_range[of 1000000 9999999 r2]
    randint_range[of 100 999 r3]
  from r have above: "9999999 < ?answer"
    by (intro answer_above_operands) simp_all
  from r have "10 ^ 12 \<le> ?answer"
    by (intro answer_at_least) simp_all
  then have long: "list_all is_digit ?shown" "12 < length ?shown"
    using str_int_long[of 12 ?answer] by simp_all
  from r have "digit_runs_le 7 (str_int ?n1)" "digit_runs_le 7 (str_int ?n2)"
    "digit_runs_le 7 (str_int ?n3)"
    by (intro str_int_digit_runs; simp)+
  then have "digit_runs_le 7 (str_int ?n1 @ '' * '' @ str_int ?n2 @ '' + '' @ str_int ?n3
      @ ''^2 - ('' @ str_int ?n1 @ '' % '' @ str_int ?n3 @ '')'')"
    by (rule formula_digit_runs)
  with long have in_formula: "\<not> sublist ?shown (str_int ?n1 @ '' * '' @ str_int ?n2 @ '' + ''
      @ str_int ?n3 @ ''^2 - ('' @ str_int ?n1 @ '' % '' @ str_int ?n3 @ '')'')"
    by (intro digit_runs_le_hides[where k = 7]) simp_all
  from long have in_description:
    "\<not> sublist ?shown ''Calculate: (num1 * num2) + (num3^2) - (num1 % num3)''"
    by (intro digit_runs_le_hides[OF description_digit_runs]) simp_all
  from long(2) have "0 < length ?shown" by linarith
  with instructions_digit_runs long(1) have in_instructions: "\<not> sublist ?shown ''Please calculate the result and provide it in the 'number' parameter when calling trustgo_login''"
    by (rule digit_runs_le_hides)
  have in_message: "\<not> sublist ?shown (''sign the message to login trustgo'' @ str_int ts)"
    if "\<bar>ts\<bar> < 1000000000000"
  proof -
    from that have "digit_runs_le 12 (str_int ts)"
      by (intro str_int_digit_runs) simp_all
    then have "digit_runs_le 12 (''sign the message to login trustgo'' @ str_int ts)"
      by (intro digit_runs_le_prepend) (simp_all add: is_digit_def)
    with long show ?thesis
      by (intro digit_runs_le_hides[where k = 12]) simp_all
  qed
  note shape = get_trustgo_login_message_Success(2,3)[OF assms]
  from r above have ints: "?n1 < ?answer" "?n2 < ?answer" "?n3 < ?answer" by linarith+
  show ?thesis
    unfolding shape
    using ints in_formula in_description in_instructions in_message
    by simp
qed

theorem login_message_result_hides_expected_answer_witness:
  "map_option (description \<circ> lm_calculation_challenge) (the_success (fst
      (get_trustgo_login_message [] 1700000000 ''2023-11-14T22:13:20'' 0 0 0 initial_state
         (Some ''0xABC'')))) = Some ''Calculate: (num1 * num2) + (num3^2) - (num1 % num3)''
   \<and> (\<exists>c. Option.bind (challenge_storage (snd
      (get_trustgo_login_message [] 1700000000 ''2023-11-14T22:13:20'' 0 0 0 initial_state
         (Some ''0xABC''))) (Some ''0xABC'')) login = Some c
      \<and> 1000000 < expected_answer c
      \<and> \<not> sublist (str_int (expected_answer c))
            (''sign the message to login trustgo'' @ str_int 1700000000)
      \<and> \<not> sublist (str_int (expected_answer c))
            (str_int 1000000 @ '' * '' @ str_int 1000000 @ '' + '' @ str_int 100
               @ ''^2 - ('' @ str_int 1000000 @ '' % '' @ str_int 100 @ '')''))"
proof -
  let ?call = "get_trustgo_login_message [] 1700000000 ''2023-11-14T22:13:20'' 0 0 0
    initial_state (Some ''0xABC'')"
  obtain res where run: "?call = (Success res, snd ?call)"
    by (simp add: get_trustgo_login_message_def py_or_def Let_def)
  have clock: "\<bar>1700000000::int\<bar> < 1000000000000" by simp
  from login_message_result_hides_expected_answer[OF run] clock obtain entry c where
    "description (lm_calculation_challenge res)
       = ''Calculate: (num1 * num2) + (num3^2) - (num1 % num3)''"
    "num1 (lm_calculation_challenge res) = randint 1000000 9999999 0"
    "num2 (lm_calculation_challenge res) = randint 1000000 9999999 0"
    "num3 (lm_calculation_challenge res) = randint 100 999 0"
    "formula (lm_calculation_challenge res)
           = str_int (num1 (lm_calculation_challenge res)) @ '' * ''
             @ str_int (num2 (lm_calculation_challenge res)) @ '' + ''
             @ str_int (num3 (lm_calculation_challenge res)) @ ''^2 - (''
             @ str_int (num1 (lm_calculation_challenge res)) @ '' % ''
             @ str_int (num3 (lm_calculation_challenge res)) @ '')''"
    "lm_message res = ''sign the message to login trustgo'' @ str_int 1700000000"
    "challenge_storage (snd ?call) (Some (py_or (Some ''0xABC'') [])) = Some entry"
    "login entry = Some c"
    "num1 (lm_calculation_challenge res) < expected_answer c"
    "\<not> sublist (str_int (expected_answer c)) (formula (lm_calculation_challenge res))"
    "\<not> sublist (str_int (expected_answer c)) (lm_message res)"
    by blast
  moreover have "the_success (fst ?call) = Some res"
    by (subst run) simp
  ultimately show ?thesis by (simp add: py_or_def randint_def)
qed

text \<open>
  Claim C6, as stated, fails: the message of a login challenge is fixed by the second in
  which it is issued, so two challenges issued for an address within the same second
  carry the same message, and a verification that echoes the first challenge's message
  passes the message check against the second one (here it goes on to the missing-answer
  error).
\<close>

theorem same_second_challenges_share_message:
  "map_option lm_message (the_success (fst
      (get_trustgo_login_message [] 1700000000 ''2023-11-14T22:13:20'' 0 0 0 initial_state
         (Some ''0xABC''))))
     = Some (''sign the message to login trustgo'' @ str_int 1700000000)
   \<and> fst (trustgo_login unreachable ''2023-11-14T22:14:00''
       (snd (get_trustgo_login_message [] 1700000000 ''2023-11-14T22:13:20'' 1 2 3
          (snd (get_trustgo_login_message [] 1700000000 ''2023-11-14T22:13:20'' 0 0 0
             initial_state (Some ''0xABC'')))
          (Some ''0xABC'')))
       ''0xABC'' ''0xsig'' (''sign the message to login trustgo'' @ str_int 1700000000)
       None None None)
     = Error Missing_Answer"
  by (simp add: get_trustgo_login_message_def py_or_def Let_def trustgo_login_def
      trustgo_login_checks_def)

text \<open>
  Claim C6, amended. When two login challenges are issued for the same address in
  different seconds, the second overwrites the first (the entry of the address holds the
  second challenge's message, timestamp and creation time), the two messages differ, and
  a verification that echoes the first challenge's message returns the challenge-mismatch
  error and leaves the stores as they are.
\<close>

theorem second_login_challenge_invalidates_first:
  assumes "get_trustgo_login_message d ts1 created1 r1 r2 r3 st address = (Success m1, st1)"
    and "get_trustgo_login_message d ts2 created2 q1 q2 q3 st1 address = (Success m2, st2)"
    and "ts1 \<noteq> ts2"
  shows "(\<exists>entry c. challenge_storage st2 (Some (py_or address d)) = Some entry
            \<and> login entry = Some c \<and> message c = lm_message m2 \<and> timestamp c = ts2
            \<and> challenge_created c = created2)
     \<and> lm_message m1 \<noteq> lm_message m2
     \<and> trustgo_login upstream now st2 (py_or address d) sg (lm_message m1) ic ifr number
         = (Error Challenge_Mismatch, st2)"
proof -
  note first = get_trustgo_login_message_Success(2)[OF assms(1)]
  note second = get_trustgo_login_message_Success(2,3)[OF assms(2)]
  from assms(3) have "str_int ts1 \<noteq> str_int ts2"
    using str_int_inj by blast
  with first second(1) have differ: "lm_message m1 \<noteq> lm_message m2" by simp
  from second have stored: "\<exists>entry c. challenge_storage st2 (Some (py_or address d)) = Some entry
            \<and> login entry = Some c \<and> message c = lm_message m2 \<and> timestamp c = ts2
            \<and> challenge_created c = created2"
    by simp
  then obtain entry c where "challenge_storage st2 (Some (py_or address d)) = Some entry"
    "login entry = Some c" "message c = lm_message m2" by blast
  with differ have "trustgo_login upstream now st2 (py_or address d) sg (lm_message m1) ic ifr
      number = (Error Challenge_Mismatch, st2)"
    by (simp add: trustgo_login_def trustgo_login_checks_def)
  with stored differ show ?thesis by blast
qed

theorem second_login_challenge_invalidates_first_witness:
  "fst (trustgo_login unreachable ''2023-11-14T22:14:00''
       (snd (get_trustgo_login_message [] 1700000001 ''2023-11-14T22:13:21'' 1 2 3
          (snd (get_trustgo_login_message [] 1700000000 ''2023-11-14T22:13:20'' 0 0 0
             initial_state (Some ''0xABC'')))
          (Some ''0xABC'')))
       ''0xABC'' ''0xsig'' (''sign the message to login trustgo'' @ str_int 1700000000)
       None None None)
     = Error Challenge_Mismatch"
proof -
  let ?first = "get_trustgo_login_message [] 1700000000 ''2023-11-14T22:13:20'' 0 0 0
             initial_state (Some ''0xABC'')"
  let ?second = "get_trustgo_login_message [] 1700000001 ''2023-11-14T22:13:21'' 1 2 3
          (snd ?first) (Some ''0xABC'')"
  obtain m1 where one: "?first = (Success m1, snd ?first)"
    and msg: "lm_message m1 = ''sign the message to login trustgo'' @ str_int 1700000000"
    by (simp add: get_trustgo_login_message_def py_or_def Let_def)
  obtain m2 where two: "?second = (Success m2, snd ?second)"
    by (simp add: get_trustgo_login_message_def py_or_def Let_def)
  have ne: "(1700000000::int) \<noteq> 1700000001" by simp
  from second_login_challenge_invalidates_first[OF one two ne, of unreachable "''2023-11-14T22:14:00''" "''0xsig''" None None None]
  have "trustgo_login unreachable ''2023-11-14T22:14:00'' (snd ?second)
      (py_or (Some ''0xABC'') []) ''0xsig'' (lm_message m1) None None None
      = (Error Challenge_Mismatch, snd ?second)"
    by blast
  then show ?thesis by (simp add: msg py_or_def)
qed

section \<open>The query facade\<close>

lemma map_of_type_mapping:
  "map_of type_mapping b =
     (if b = ''price'' \<or> b = ''sigma_score'' \<or> b = ''mindshare'' then Some b else None)"
  by (simp add: type_mapping_def)

lemma stored_token:
  "(if qa \<noteq> [] \<and> auth_tokens st qa \<noteq> None then trustgo_token (the (auth_tokens st qa)) else None)
     = (if qa = [] then None else Option.bind (auth_tokens st qa) trustgo_token)"
  by (cases "auth_tokens st qa") simp_all

text \<open>
  Claim C5, as stated, fails in its first step: \<^verbatim>\<open>query_ranked_bubbles\<close> has no error of
  its own for a call without a resolvable address. The guard
  \<^verbatim>\<open>if query_address and query_address in auth_tokens\<close> leaves the token \<^verbatim>\<open>None\<close>, and
  the call returns "Please login to TrustGo first using trustgo_login", the same dictionary
  as for an address without a session.
\<close>

theorem query_without_address_is_not_authenticated:
  "query_ranked_bubbles [] unreachable ''2023-11-14T22:14:00'' initial_state ''price'' None
     = (Error Not_Authenticated :: unit bubbles result)
   \<and> query_ranked_bubbles [] unreachable ''2023-11-14T22:14:00'' initial_state ''price'' None
     \<noteq> (Error Address_Required :: unit bubbles result)"
  by (simp add: query_ranked_bubbles_def query_ranked_bubbles_gate_def py_or_def
      initial_state_def)

text \<open>
  Claim C5, amended. \<^verbatim>\<open>query_ranked_bubbles\<close> gates every call in this order: when no
  address is resolvable (none given and no default configured), or no non-empty login
  token is stored for the resolved address, it returns the not-authenticated error,
  whatever the dataset tag; otherwise, when the tag is not one of \<^verbatim>\<open>price\<close>,
  \<^verbatim>\<open>sigma_score\<close>, \<^verbatim>\<open>mindshare\<close>, it returns the invalid-dataset error; only then is
  the upstream query made, with the stored token and the tag, and its answer decides the
  result.
\<close>

theorem query_gate_order:
  "(py_or address d = [] \<longrightarrow>
      query_ranked_bubbles d upstream now st btype address = Error Not_Authenticated)
   \<and> (Option.bind (auth_tokens st (py_or address d)) trustgo_token = None
        \<or> Option.bind (auth_tokens st (py_or address d)) trustgo_token = Some [] \<longrightarrow>
      query_ranked_bubbles d upstream now st btype address = Error Not_Authenticated)
   \<and> (\<forall>t. py_or address d \<noteq> []
          \<and> Option.bind (auth_tokens st (py_or address d)) trustgo_token = Some t \<and> t \<noteq> [] \<longrightarrow>
        (btype \<notin> {''price'', ''sigma_score'', ''mindshare''} \<longrightarrow>
           query_ranked_bubbles d upstream now st btype address = Error Invalid_Bubble_Type)
      \<and> (btype \<in> {''price'', ''sigma_score'', ''mindshare''} \<longrightarrow>
           query_ranked_bubbles_gate d st btype address
             = Inr \<lparr>bub_token = t, bub_type = btype\<rparr>
         \<and> query_ranked_bubbles d upstream now st btype address =
             (case upstream \<lparr>bub_token = t, bub_type = btype\<rparr> of
                Raised e \<Rightarrow> Error (Query_Failed e)
              | Response r \<Rightarrow>
                  if bub_status r = 200
                  then Success \<lparr>bubble_type = btype, bubble_data = bub_body r,
                                bubble_timestamp = now\<rparr>
                  else Error (Query_Upstream_Failed (bub_message r)))))
   \<and> ((\<exists>req. query_ranked_bubbles_gate d st btype address = Inr req) \<longrightarrow>
        py_or address d \<noteq> []
        \<and> (\<exists>t. Option.bind (auth_tokens st (py_or address d)) trustgo_token = Some t \<and> t \<noteq> [])
        \<and> btype \<in> {''price'', ''sigma_score'', ''mindshare''})"
  unfolding query_ranked_bubbles_def query_ranked_bubbles_gate_def Let_def stored_token
    map_of_type_mapping
  by (auto split: option.splits if_splits)

theorem query_gate_order_witness:
  "query_ranked_bubbles [] (answering ''[]'') ''2023-11-14T22:20:00'' example_session_state
       ''price'' None = Error Not_Authenticated
   \<and> query_ranked_bubbles [] (answering ''[]'') ''2023-11-14T22:20:00'' example_session_state
       ''volume'' (Some ''0xDEF'') = Error Not_Authenticated
   \<and> query_ranked_bubbles [] (answering ''[]'') ''2023-11-14T22:20:00'' example_session_state
       ''volume'' (Some ''0xABC'') = Error Invalid_Bubble_Type
   \<and> query_ranked_bubbles [] (answering ''[]'') ''2023-11-14T22:20:00'' example_session_state
       ''price'' (Some ''0xABC'')
       = Success \<lparr>bubble_type = ''price'', bubble_data = ''[]'',
                  bubble_timestamp = ''2023-11-14T22:20:00''\<rparr>"
proof -
  have none: "query_ranked_bubbles [] (answering ''[]'') ''2023-11-14T22:20:00''
      example_session_state ''price'' None = Error Not_Authenticated"
    using query_gate_order[where address = None and d = "[]" and st = example_session_state
        and btype = "''price''" and upstream = "answering ''[]''"
        and now = "''2023-11-14T22:20:00''"]
    by (simp add: py_or_def)
  have stranger: "query_ranked_bubbles [] (answering ''[]'') ''2023-11-14T22:20:00''
      example_session_state ''volume'' (Some ''0xDEF'') = Error Not_Authenticated"
    using query_gate_order[where address = "Some ''0xDEF''" and d = "[]" and st = example_session_state
        and btype = "''volume''" and upstream = "answering ''[]''"
        and now = "''2023-11-14T22:20:00''"]
    by (simp add: py_or_def example_session_state_def)
  have tag: "query_ranked_bubbles [] (answering ''[]'') ''2023-11-14T22:20:00''
      example_session_state ''volume'' (Some ''0xABC'') = Error Invalid_Bubble_Type"
    using query_gate_order[where address = "Some ''0xABC''" and d = "[]" and st = example_session_state
        and btype = "''volume''" and upstream = "answering ''[]''"
        and now = "''2023-11-14T22:20:00''"]
    by (simp add: py_or_def example_session_state_def)
  have ok: "query_ranked_bubbles [] (answering ''[]'') ''2023-11-14T22:20:00''
      example_session_state ''price'' (Some ''0xABC'')
       = Success \<lparr>bubble_type = ''price'', bubble_data = ''[]'',
                  bubble_timestamp = ''2023-11-14T22:20:00''\<rparr>"
    using query_gate_order[where address = "Some ''0xABC''" and d = "[]" and st = example_session_state
        and btype = "''price''" and upstream = "answering ''[]''"
        and now = "''2023-11-14T22:20:00''"]
    by (simp add: py_or_def example_session_state_def answering_def)
  from none stranger tag ok show ?thesis by (intro conjI)
qed

section \<open>The social-binding flow\<close>

lemma login_twitter_keeps_login_challenge:
  "Option.bind (challenge_storage (snd (login_twitter r st address)) a) login
     = Option.bind (challenge_storage st a) login"
  by (simp add: login_twitter_def Let_def split: option.splits)

lemma login_twitter_stores_challenge:
  "Option.bind (challenge_storage (snd (login_twitter r st address)) address) twitter
     = Some \<lparr>tw_message = ''Using AgentGo to sign with twitter '' @ str_opt address
                 @ '' code is '' @ str_int (randint 1000000 9999999 r),
             tw_number = randint 1000000 9999999 r, tw_user_screen_name = None\<rparr>"
  by (simp add: login_twitter_def Let_def split: option.splits)

text \<open>
  Claim C4. One half holds: \<^verbatim>\<open>login_twitter\<close> assigns only the \<^verbatim>\<open>twitter\<close> key of an
  existing entry, so a stored login challenge stays (\<open>login_twitter_keeps_login_challenge\<close>).
  The other half fails: \<^verbatim>\<open>get_trustgo_login_message\<close> assigns a fresh dictionary to
  \<^verbatim>\<open>challenge_storage[user_address]\<close>, which drops the \<^verbatim>\<open>twitter\<close> key of the entry.
  After \<^verbatim>\<open>login_twitter\<close> and then \<^verbatim>\<open>get_trustgo_login_message\<close> for the same
  address the social-binding challenge is gone, and \<^verbatim>\<open>verify_twitter_signature\<close> ends
  in its exception handler with \<^verbatim>\<open>KeyError('twitter')\<close> for every fetched post.
\<close>

theorem login_message_discards_twitter_challenge:
  "Option.bind (challenge_storage (snd (login_twitter r initial_state (Some ''0xABC'')))
       (Some ''0xABC'')) twitter
     = Some \<lparr>tw_message = ''Using AgentGo to sign with twitter 0xABC code is ''
                 @ str_int (randint 1000000 9999999 r),
             tw_number = randint 1000000 9999999 r, tw_user_screen_name = None\<rparr>
   \<and> Option.bind (challenge_storage (snd (get_trustgo_login_message d ts created r1 r2 r3
         (snd (login_twitter r initial_state (Some ''0xABC''))) (Some ''0xABC'')))
       (Some ''0xABC'')) twitter = None
   \<and> fst (verify_twitter_signature (Response post)
        (snd (get_trustgo_login_message d ts created r1 r2 r3
           (snd (login_twitter r initial_state (Some ''0xABC''))) (Some ''0xABC'')))
        (Some ''0xABC''))
       = Error (Sign_Failed (KeyError (Some ''twitter'')))"
  by (simp add: login_twitter_def get_trustgo_login_message_def verify_twitter_signature_def
      initial_state_def py_or_def str_opt_def Let_def)

text \<open>
  Claim C9. For an address with a stored social-binding challenge,
  \<^verbatim>\<open>verify_twitter_signature\<close> returns the verification-mismatch error, and writes
  nothing, whenever the text of the fetched post is not exactly the stored message (a post
  without text included). When the texts are equal and the post carries its author, it
  records the author's screen name in the stored challenge and returns success with it,
  and verifying the same post again gives the same result and the same stores. Whatever
  the lookup answers (a raised exception and a post without author included, which end in
  the exception handler), the stored message and code stay, as does a login challenge of
  the same entry.
\<close>

theorem twitter_verifier_compares_and_keeps_challenge:
  assumes "challenge_storage st address = Some entry" and "twitter entry = Some slot"
  shows "(tweet_text post \<noteq> Some (tw_message slot) \<longrightarrow>
            verify_twitter_signature (Response post) st address
              = (Error (Verification_Mismatch post), st))
     \<and> (\<forall>au. tweet_text post = Some (tw_message slot) \<and> tweet_author post = Some au \<longrightarrow>
            verify_twitter_signature (Response post) st address
              = (Success \<lparr>tv_data = post, tv_user_screen_name = screen_name au\<rparr>,
                 st\<lparr>challenge_storage := (challenge_storage st)(address \<mapsto>
                      entry\<lparr>twitter := Some (slot\<lparr>tw_user_screen_name :=
                                                 Some (screen_name au)\<rparr>)\<rparr>)\<rparr>)
          \<and> verify_twitter_signature (Response post)
               (snd (verify_twitter_signature (Response post) st address)) address
              = verify_twitter_signature (Response post) st address)
     \<and> (\<exists>entry' slot'.
            challenge_storage (snd (verify_twitter_signature outcome st address)) address
              = Some entry'
          \<and> twitter entry' = Some slot' \<and> tw_message slot' = tw_message slot
          \<and> tw_number slot' = tw_number slot \<and> login entry' = login entry)"
  using assms
  by (auto simp add: verify_twitter_signature_def split: http_outcome.splits option.splits)

theorem twitter_verifier_compares_and_keeps_challenge_witness:
  "verify_twitter_signature (Response altered_post) example_twitter_state (Some ''0xABC'')
     = (Error (Verification_Mismatch altered_post), example_twitter_state)
   \<and> fst (verify_twitter_signature (Response matching_post) example_twitter_state
          (Some ''0xABC''))
     = Success \<lparr>tv_data = matching_post, tv_user_screen_name = Some ''agent_abc''\<rparr>
   \<and> Option.bind (challenge_storage (snd (verify_twitter_signature (Response matching_post)
          example_twitter_state (Some ''0xABC''))) (Some ''0xABC'')) twitter
     = Some \<lparr>tw_message = ''Using AgentGo to sign with twitter 0xABC code is ''
                 @ str_int 1000000,
             tw_number = 1000000, tw_user_screen_name = Some (Some ''agent_abc'')\<rparr>"
proof -
  let ?slot = "\<lparr>tw_message = ''Using AgentGo to sign with twitter 0xABC code is ''
                 @ str_int 1000000,
               tw_number = 1000000, tw_user_screen_name = None\<rparr>"
  let ?entry = "\<lparr>login = None, twitter = Some ?slot\<rparr>"
  have stored: "challenge_storage example_twitter_state (Some ''0xABC'') = Some ?entry"
    by (simp add: example_twitter_state_def login_twitter_def initial_state_def str_opt_def
        randint_def Let_def)
  have slot: "twitter ?entry = Some ?slot" by simp
  note differs = twitter_verifier_compares_and_keeps_challenge[OF stored slot, where post = altered_post]
  note equal = twitter_verifier_compares_and_keeps_challenge[OF stored slot, where post = matching_post]
  from differs have one: "verify_twitter_signature (Response altered_post)
      example_twitter_state (Some ''0xABC'')
     = (Error (Verification_Mismatch altered_post), example_twitter_state)"
    by (simp add: altered_post_def)
  from equal have two: "verify_twitter_signature (Response matching_post)
      example_twitter_state (Some ''0xABC'')
     = (Success \<lparr>tv_data = matching_post, tv_user_screen_name = Some ''agent_abc''\<rparr>,
        example_twitter_state\<lparr>challenge_storage :=
          (challenge_storage example_twitter_state)(Some ''0xABC'' \<mapsto>
             ?entry\<lparr>twitter := Some (?slot\<lparr>tw_user_screen_name :=
                                           Some (Some ''agent_abc'')\<rparr>)\<rparr>)\<rparr>)"
    by (simp add: matching_post_def)
  from one two show ?thesis by simp
qed

end
